theory Spec2Isabelle
  imports Complex_Main
begin

section \<open>Analog operations: generators and parameter maps\<close>

text \<open>
  A shallow embedding of \<^verbatim>\<open>qadence/analog/operations.py\<close>: the five constructors
  \<^verbatim>\<open>AnalogInteraction\<close>, \<^verbatim>\<open>AnalogDrive\<close>, \<^verbatim>\<open>AnalogRX\<close>, \<^verbatim>\<open>AnalogRY\<close> and
  \<^verbatim>\<open>AnalogRZ\<close>. Each \<^verbatim>\<open>__init__\<close> is a function from the object under construction
  to the updated object, or to the exception it raises. The symbolic scalars, the operator
  blocks, the parameter map and the time-evolution base class live outside the file; they
  are modelled from the specification and marked as such.
\<close>

subsection \<open>Scalar expressions\<close>

text \<open>
  Modelled from the spec: the scalar expression tree of the parameter algebra (section 3,
  "Scalar Expression"), which the file imports from the symbolic library and from
  \<^verbatim>\<open>qadence.parameters\<close>. A node is a constant, a named free variable, a unary or a
  binary operation. Trees are built, never evaluated or simplified.
\<close>

datatype unary_op = Sqrt | Sin | Cos | Negate

datatype binary_op = Plus | Minus | Times | Divide | Power

datatype scalar_expr =
    Constant real
  | FreeVariable string
  | Unary unary_op scalar_expr
  | Binary binary_op scalar_expr scalar_expr

text \<open>
  The type \<^verbatim>\<open>TParameter\<close> of the constructor arguments: a Python number, a string
  (the name of a variable) or an expression that was built before.
\<close>

datatype tparameter = TNum real | TStr string | TExpr scalar_expr

datatype error = ValueError string | ZeroDivisionError

definition bind_result :: "error + 'a \<Rightarrow> ('a \<Rightarrow> error + 'b) \<Rightarrow> error + 'b" where
  "bind_result r f = (case r of Inl e \<Rightarrow> Inl e | Inr x \<Rightarrow> f x)"

text \<open>
  Modelled from the spec: \<^verbatim>\<open>Parameter(x)\<close> of \<^verbatim>\<open>qadence.parameters\<close> (section 2,
  "Parameter Algebra": a scalar is a fixed constant, a named free variable or a compound
  expression). A number becomes a constant, a string a free variable, an expression is
  kept as it is.
\<close>

fun Parameter :: "tparameter \<Rightarrow> scalar_expr" where
  "Parameter (TNum r) = Constant r"
| "Parameter (TStr s) = FreeVariable s"
| "Parameter (TExpr e) = e"

text \<open>
  Modelled from the spec: the test \<^verbatim>\<open>x == 0\<close> on a constructor argument (section 4.1,
  equality-to-zero testing: exact on constants, "possibly nonzero" on everything else).
  A Python number is compared as a number, a string is never equal to \<^verbatim>\<open>0\<close>, and an
  expression is zero only when it is the literal constant zero.
\<close>

fun eq_zero :: "tparameter \<Rightarrow> bool" where
  "eq_zero (TNum r) = (r = 0)"
| "eq_zero (TStr s) = False"
| "eq_zero (TExpr e) = (e = Constant 0)"

text \<open>
  Modelled from the spec: the arithmetic of the parameter algebra (section 4.1). Every
  operation returns a new node. Division signals a domain error when the denominator is
  the literal constant zero and checks nothing else.
\<close>

definition expr_add :: "scalar_expr \<Rightarrow> scalar_expr \<Rightarrow> scalar_expr" where
  "expr_add a b = Binary Plus a b"

definition expr_mul :: "scalar_expr \<Rightarrow> scalar_expr \<Rightarrow> scalar_expr" where
  "expr_mul a b = Binary Times a b"

definition expr_pow :: "scalar_expr \<Rightarrow> scalar_expr \<Rightarrow> scalar_expr" where
  "expr_pow a b = Binary Power a b"

definition expr_div :: "scalar_expr \<Rightarrow> scalar_expr \<Rightarrow> error + scalar_expr" where
  "expr_div a b = (if b = Constant 0 then Inl ZeroDivisionError else Inr (Binary Divide a b))"

definition cos_expr :: "scalar_expr \<Rightarrow> scalar_expr" where
  "cos_expr a = Unary Cos a"

definition sin_expr :: "scalar_expr \<Rightarrow> scalar_expr" where
  "sin_expr a = Unary Sin a"

definition sqrt_expr :: "scalar_expr \<Rightarrow> scalar_expr" where
  "sqrt_expr a = Unary Sqrt a"

text \<open>
  The value of an expression under an assignment of reals to the free variables. Python's
  floating-point numbers are idealised as reals. A power with an integral exponent is the
  iterated product, as \<^verbatim>\<open>x**2\<close> is.
\<close>

definition pow_real :: "real \<Rightarrow> real \<Rightarrow> real" where
  "pow_real x y = (if y = of_int \<lfloor>y\<rfloor> then power_int x \<lfloor>y\<rfloor> else x powr y)"

fun eval_unary :: "unary_op \<Rightarrow> real \<Rightarrow> real" where
  "eval_unary Sqrt x = sqrt x"
| "eval_unary Sin x = sin x"
| "eval_unary Cos x = cos x"
| "eval_unary Negate x = - x"

fun eval_binary :: "binary_op \<Rightarrow> real \<Rightarrow> real \<Rightarrow> real" where
  "eval_binary Plus x y = x + y"
| "eval_binary Minus x y = x - y"
| "eval_binary Times x y = x * y"
| "eval_binary Divide x y = x / y"
| "eval_binary Power x y = pow_real x y"

fun eval :: "(string \<Rightarrow> real) \<Rightarrow> scalar_expr \<Rightarrow> real" where
  "eval \<rho> (Constant c) = c"
| "eval \<rho> (FreeVariable v) = \<rho> v"
| "eval \<rho> (Unary f a) = eval_unary f (eval \<rho> a)"
| "eval \<rho> (Binary f a b) = eval_binary f (eval \<rho> a) (eval \<rho> b)"

subsection \<open>Operator blocks\<close>

text \<open>
  Modelled from the spec: the operator terms of \<^verbatim>\<open>qadence.operations\<close> and
  \<^verbatim>\<open>qadence.blocks\<close> (section 3, "Operator Term", and section 6): the single-qubit
  operators \<^verbatim>\<open>X(i)\<close>, \<^verbatim>\<open>Y(i)\<close>, \<^verbatim>\<open>N(i)\<close>, an opaque externally supplied multi-qubit
  term, a term weighted by a scalar expression, and the additive combination of a
  sequence of terms.
\<close>

datatype block =
    X nat
  | Y nat
  | N nat
  | Opaque nat
  | ScaleBlock scalar_expr block
  | AddBlock "block list"

text \<open>
  Modelled from the spec: \<^verbatim>\<open>add(terms)\<close>, the product \<^verbatim>\<open>c * b\<close> of a scalar and a
  block, and the sum and difference \<^verbatim>\<open>a + b\<close>, \<^verbatim>\<open>a - b\<close> of two blocks. Terms combine
  only by addition, so the difference adds the second block weighted by \<^verbatim>\<open>-1\<close>.
\<close>

definition add :: "block list \<Rightarrow> block" where
  "add bs = AddBlock bs"

definition scale :: "scalar_expr \<Rightarrow> block \<Rightarrow> block" where
  "scale c b = ScaleBlock c b"

definition block_add :: "block \<Rightarrow> block \<Rightarrow> block" where
  "block_add a b = AddBlock [a, b]"

definition block_sub :: "block \<Rightarrow> block \<Rightarrow> block" where
  "block_sub a b = AddBlock [a, ScaleBlock (Constant (- 1)) b]"

text \<open>
  The operator a block stands for, in any real vector space, once the free variables have
  values (\<open>\<rho>\<close>) and the leaves \<^verbatim>\<open>X(i)\<close>, \<^verbatim>\<open>Y(i)\<close>, \<^verbatim>\<open>N(i)\<close> and the opaque terms
  have operators (\<open>\<iota>\<close>, read at the leaves only). Two generators are equal as
  Hamiltonians when they denote the same operator for every \<open>\<rho>\<close> and \<open>\<iota>\<close>.
\<close>

fun denote :: "(string \<Rightarrow> real) \<Rightarrow> (block \<Rightarrow> 'a::real_vector) \<Rightarrow> block \<Rightarrow> 'a" where
  "denote \<rho> \<iota> (X i) = \<iota> (X i)"
| "denote \<rho> \<iota> (Y i) = \<iota> (Y i)"
| "denote \<rho> \<iota> (N i) = \<iota> (N i)"
| "denote \<rho> \<iota> (Opaque k) = \<iota> (Opaque k)"
| "denote \<rho> \<iota> (ScaleBlock c b) = eval \<rho> c *\<^sub>R denote \<rho> \<iota> b"
| "denote \<rho> \<iota> (AddBlock bs) = sum_list (map (denote \<rho> \<iota>) bs)"

subsection \<open>Collaborators and the operation object\<close>

text \<open>
  The register and the two geometry routines are imported; the constructors only call
  them. They are parameters of the model: \<open>nodes\<close> is \<^verbatim>\<open>register.nodes\<close>, and the
  pattern routine returns \<^verbatim>\<open>None\<close> when no pattern is configured.
\<close>

record 'r collaborators =
  nodes :: "'r \<Rightarrow> nat list"
  rydberg_interaction_hamiltonian :: "'r \<Rightarrow> block"
  rydberg_pattern_hamiltonian :: "'r \<Rightarrow> block option"

text \<open>
  The instance under construction. An attribute that has not been assigned is \<open>None\<close>.
  \<open>alpha\<close> is the attribute \<^verbatim>\<open>self.alpha\<close> of the rotations; the role \<^verbatim>\<open>alpha\<close> of the
  parameter map is an entry of \<open>parameters\<close>. \<open>generator\<close> and \<open>evolution_parameter\<close>
  are the two arguments handed to the time-evolution base class.
\<close>

record analog_op =
  add_pattern :: "bool option"
  duration :: "scalar_expr option"
  alpha :: "scalar_expr option"
  generator :: "block option"
  evolution_parameter :: "scalar_expr option"
  parameters :: "string \<rightharpoonup> scalar_expr"

definition new_object :: analog_op where
  "new_object = \<lparr>add_pattern = None, duration = None, alpha = None, generator = None,
     evolution_parameter = None, parameters = Map.empty\<rparr>"

text \<open>
  Modelled from the spec: \<^verbatim>\<open>HamEvo.__init__(generator, parameter)\<close>, the external
  time-evolution primitive (section 6: it accepts a generator and a scaled duration, and
  the core does not look inside). The model records what it was handed.
\<close>

definition HamEvo_init :: "analog_op \<Rightarrow> block \<Rightarrow> scalar_expr \<Rightarrow> analog_op" where
  "HamEvo_init self g p = self\<lparr>generator := Some g, evolution_parameter := Some p\<rparr>"

text \<open>
  Modelled from the spec: \<^verbatim>\<open>ParamMap(role=expression, ...)\<close> (section 4.2): the passive
  record from role names to expressions, built from the keyword arguments in their order.
\<close>

definition ParamMap :: "(string \<times> scalar_expr) list \<Rightarrow> (string \<rightharpoonup> scalar_expr)" where
  "ParamMap kwargs = map_of kwargs"

text \<open>An optional argument: \<open>None\<close> is the omitted argument, which takes the default.\<close>

fun default_arg :: "'a \<Rightarrow> 'a option \<Rightarrow> 'a" where
  "default_arg d None = d"
| "default_arg d (Some x) = x"

definition ANALOGDRIVE :: string where
  "ANALOGDRIVE = ''AnalogDrive''"

subsection \<open>The constructors\<close>

text \<open>\<^verbatim>\<open>AnalogInteraction.__init__(self, register, duration, add_pattern=True)\<close>.\<close>

definition AnalogInteraction_init ::
  "'r collaborators \<Rightarrow> analog_op \<Rightarrow> 'r \<Rightarrow> tparameter \<Rightarrow> bool option \<Rightarrow> error + analog_op" where
  "AnalogInteraction_init env self0 register duration_arg add_pattern_arg =
    (let add_pattern_flag = default_arg True add_pattern_arg;
         self1 = self0\<lparr>add_pattern := Some add_pattern_flag\<rparr>;
         self2 = self1\<lparr>duration := Some (Parameter duration_arg)\<rparr>;
         generator0 = rydberg_interaction_hamiltonian env register;
         generator_pattern = rydberg_pattern_hamiltonian env register;
         generator1 = (if add_pattern_flag \<and> generator_pattern \<noteq> None
                       then block_add generator0 (the generator_pattern) else generator0)
     in bind_result (expr_div (the (duration self2)) (Constant 1000)) (\<lambda>scaled.
        let self3 = HamEvo_init self2 generator1 scaled
        in bind_result (expr_div (the (duration self3)) (Constant 1000)) (\<lambda>parameter.
           Inr (self3\<lparr>parameters := ParamMap
             [(''parameter'', parameter), (''duration'', the (duration self3))]\<rparr>))))"

text \<open>
  \<^verbatim>\<open>AnalogDrive.__init__(self, register, duration, omega, delta, phase=0,
  qubit_support=None, add_pattern=True)\<close>.
\<close>

definition AnalogDrive_init ::
  "'r collaborators \<Rightarrow> analog_op \<Rightarrow> 'r \<Rightarrow> tparameter \<Rightarrow> tparameter \<Rightarrow> tparameter \<Rightarrow>
   tparameter option \<Rightarrow> nat list option \<Rightarrow> bool option \<Rightarrow> error + analog_op" where
  "AnalogDrive_init env self0 register duration_arg omega_arg delta_arg phase_arg
      qubit_support_arg add_pattern_arg =
    (let add_pattern_flag = default_arg True add_pattern_arg;
         self1 = self0\<lparr>add_pattern := Some add_pattern_flag\<rparr>;
         self2 = self1\<lparr>duration := Some (Parameter duration_arg)\<rparr>
     in if eq_zero omega_arg \<and> eq_zero delta_arg
        then Inl (ValueError ''Parameters omega and delta cannot both be 0.'')
        else
          let qubit_support = (case qubit_support_arg of
                                 None \<Rightarrow> nodes env register | Some qs \<Rightarrow> qs);
              omega = Parameter omega_arg;
              delta = Parameter delta_arg;
              phase = Parameter (default_arg (TNum 0) phase_arg)
          in bind_result (expr_div omega (Constant 2)) (\<lambda>half_omega_x.
             let x_terms = scale half_omega_x
                             (add (map (\<lambda>i. scale (cos_expr phase) (X i)) qubit_support))
             in bind_result (expr_div omega (Constant 2)) (\<lambda>half_omega_y.
                let y_terms = scale half_omega_y
                                (add (map (\<lambda>i. scale (sin_expr phase) (Y i)) qubit_support));
                    n_terms = scale delta (add (map (\<lambda>i. N i) qubit_support));
                    generator_interaction = rydberg_interaction_hamiltonian env register;
                    generator0 = block_add (block_sub (block_sub x_terms y_terms) n_terms)
                                   generator_interaction;
                    generator_pattern = rydberg_pattern_hamiltonian env register;
                    generator1 = (if add_pattern_flag \<and> generator_pattern \<noteq> None
                                  then block_add generator0 (the generator_pattern)
                                  else generator0)
                in bind_result (expr_div (the (duration self2)) (Constant 1000)) (\<lambda>scaled.
                   let self3 = HamEvo_init self2 generator1 scaled;
                       h_norm = sqrt_expr (expr_add (expr_pow omega (Constant 2))
                                                    (expr_pow delta (Constant 2)))
                   in bind_result (expr_div (expr_mul (the (duration self3)) h_norm)
                                     (Constant 1000)) (\<lambda>alpha_role.
                      bind_result (expr_div (the (duration self3)) (Constant 1000))
                        (\<lambda>parameter.
                         Inr (self3\<lparr>parameters := ParamMap
                           [(''parameter'', parameter),
                            (''duration'', the (duration self3)),
                            (''alpha'', alpha_role),
                            (''omega'', omega),
                            (''delta'', delta),
                            (''phase'', phase),
                            (''h_norm'', h_norm)]\<rparr>)))))))"

text \<open>\<^verbatim>\<open>AnalogRX.__init__(self, register, angle, qubit_support=None, add_pattern=True)\<close>.\<close>

definition AnalogRX_init ::
  "'r collaborators \<Rightarrow> analog_op \<Rightarrow> 'r \<Rightarrow> tparameter \<Rightarrow> nat list option \<Rightarrow> bool option \<Rightarrow>
   error + analog_op" where
  "AnalogRX_init env self0 register angle qubit_support_arg add_pattern_arg =
    (let add_pattern_flag = default_arg True add_pattern_arg;
         self1 = self0\<lparr>alpha := Some (Parameter angle)\<rparr>;
         omega = pi; delta = 0; phase = 0
     in bind_result (expr_div (the (alpha self1)) (Constant omega)) (\<lambda>quotient.
        AnalogDrive_init env self1 register (TExpr (expr_mul quotient (Constant 1000)))
          (TNum omega) (TNum delta) (Some (TNum phase)) qubit_support_arg
          (Some add_pattern_flag)))"

text \<open>\<^verbatim>\<open>AnalogRY.__init__(self, register, angle, qubit_support=None, add_pattern=True)\<close>.\<close>

definition AnalogRY_init ::
  "'r collaborators \<Rightarrow> analog_op \<Rightarrow> 'r \<Rightarrow> tparameter \<Rightarrow> nat list option \<Rightarrow> bool option \<Rightarrow>
   error + analog_op" where
  "AnalogRY_init env self0 register angle qubit_support_arg add_pattern_arg =
    (let add_pattern_flag = default_arg True add_pattern_arg;
         self1 = self0\<lparr>alpha := Some (Parameter angle)\<rparr>;
         omega = pi; delta = 0; phase = - pi / 2
     in bind_result (expr_div (the (alpha self1)) (Constant omega)) (\<lambda>quotient.
        AnalogDrive_init env self1 register (TExpr (expr_mul quotient (Constant 1000)))
          (TNum omega) (TNum delta) (Some (TNum phase)) qubit_support_arg
          (Some add_pattern_flag)))"

text \<open>\<^verbatim>\<open>AnalogRZ.__init__(self, register, angle, qubit_support=None, add_pattern=True)\<close>.\<close>

definition AnalogRZ_init ::
  "'r collaborators \<Rightarrow> analog_op \<Rightarrow> 'r \<Rightarrow> tparameter \<Rightarrow> nat list option \<Rightarrow> bool option \<Rightarrow>
   error + analog_op" where
  "AnalogRZ_init env self0 register angle qubit_support_arg add_pattern_arg =
    (let add_pattern_flag = default_arg True add_pattern_arg;
         self1 = self0\<lparr>alpha := Some (Parameter angle)\<rparr>;
         omega = 0; delta = pi; phase = 0
     in bind_result (expr_div (the (alpha self1)) (Constant delta)) (\<lambda>quotient.
        AnalogDrive_init env self1 register (TExpr (expr_mul quotient (Constant 1000)))
          (TNum omega) (TNum delta) (Some (TNum phase)) qubit_support_arg
          (Some add_pattern_flag)))"

text \<open>Calling a class builds a fresh instance and runs its \<^verbatim>\<open>__init__\<close>.\<close>

definition AnalogInteraction ::
  "'r collaborators \<Rightarrow> 'r \<Rightarrow> tparameter \<Rightarrow> bool option \<Rightarrow> error + analog_op" where
  "AnalogInteraction env = AnalogInteraction_init env new_object"

definition AnalogDrive ::
  "'r collaborators \<Rightarrow> 'r \<Rightarrow> tparameter \<Rightarrow> tparameter \<Rightarrow> tparameter \<Rightarrow> tparameter option \<Rightarrow>
   nat list option \<Rightarrow> bool option \<Rightarrow> error + analog_op" where
  "AnalogDrive env = AnalogDrive_init env new_object"

definition AnalogRX ::
  "'r collaborators \<Rightarrow> 'r \<Rightarrow> tparameter \<Rightarrow> nat list option \<Rightarrow> bool option \<Rightarrow> error + analog_op" where
  "AnalogRX env = AnalogRX_init env new_object"

definition AnalogRY ::
  "'r collaborators \<Rightarrow> 'r \<Rightarrow> tparameter \<Rightarrow> nat list option \<Rightarrow> bool option \<Rightarrow> error + analog_op" where
  "AnalogRY env = AnalogRY_init env new_object"

definition AnalogRZ ::
  "'r collaborators \<Rightarrow> 'r \<Rightarrow> tparameter \<Rightarrow> nat list option \<Rightarrow> bool option \<Rightarrow> error + analog_op" where
  "AnalogRZ env = AnalogRZ_init env new_object"

subsection \<open>The assembled drive generator, and sample inputs\<close>

text \<open>
  The block that \<^verbatim>\<open>AnalogDrive.__init__\<close> assembles from the three sums, the interaction
  term and the pattern term, written with the constructors of \<open>block\<close>. Lemma
  \<open>AnalogDrive_init_unfold\<close> below proves that the constructor builds this block.
\<close>

definition drive_generator ::
  "'r collaborators \<Rightarrow> 'r \<Rightarrow> scalar_expr \<Rightarrow> scalar_expr \<Rightarrow> scalar_expr \<Rightarrow> nat list \<Rightarrow> bool \<Rightarrow> block" where
  "drive_generator env register omega delta phase qs flag =
    (let g = AddBlock [AddBlock [AddBlock
               [ScaleBlock (Binary Divide omega (Constant 2))
                  (AddBlock (map (\<lambda>i. ScaleBlock (Unary Cos phase) (X i)) qs)),
                ScaleBlock (Constant (- 1))
                  (ScaleBlock (Binary Divide omega (Constant 2))
                     (AddBlock (map (\<lambda>i. ScaleBlock (Unary Sin phase) (Y i)) qs)))],
               ScaleBlock (Constant (- 1)) (ScaleBlock delta (AddBlock (map N qs)))],
             rydberg_interaction_hamiltonian env register]
     in case rydberg_pattern_hamiltonian env register of
          None \<Rightarrow> g
        | Some p \<Rightarrow> if flag then AddBlock [g, p] else g)"

text \<open>
  A register of two qubits with an interaction term and a pattern term, the same register
  without a pattern, an assignment of the free variables, and an interpretation of the
  leaves in the real numbers.
\<close>

definition sample_env :: "unit collaborators" where
  "sample_env = \<lparr>nodes = (\<lambda>r. [0, 1]),
     rydberg_interaction_hamiltonian = (\<lambda>r. Opaque 0),
     rydberg_pattern_hamiltonian = (\<lambda>r. Some (Opaque 1))\<rparr>"

definition sample_env_no_pattern :: "unit collaborators" where
  "sample_env_no_pattern = \<lparr>nodes = (\<lambda>r. [0, 1]),
     rydberg_interaction_hamiltonian = (\<lambda>r. Opaque 0),
     rydberg_pattern_hamiltonian = (\<lambda>r. None)\<rparr>"

definition sample_rho :: "string \<Rightarrow> real" where
  "sample_rho v = (if v = ''theta'' then 3 else 1)"

fun sample_iota :: "block \<Rightarrow> real" where
  "sample_iota (X i) = 1"
| "sample_iota (Y i) = 10"
| "sample_iota (N i) = 100"
| "sample_iota (Opaque k) = 1000 + real k"
| "sample_iota b = 0"

section \<open>Properties\<close>

subsection \<open>Auxiliary facts\<close>

lemma expr_div_nonzero:
  "c \<noteq> 0 \<Longrightarrow> expr_div a (Constant c) = Inr (Binary Divide a (Constant c))"
  by (simp add: expr_div_def)

lemma bind_result_Inr: "bind_result (Inr x) f = f x"
  by (simp add: bind_result_def)

lemma pow_real_two: "pow_real x 2 = x\<^sup>2"
  by (simp add: pow_real_def)

lemma denote_scaled_sum:
  "denote \<rho> \<iota> (ScaleBlock c (AddBlock (map (\<lambda>i. ScaleBlock d (f i)) qs))) =
     (\<Sum>i\<leftarrow>qs. (eval \<rho> c * eval \<rho> d) *\<^sub>R denote \<rho> \<iota> (f i))"
  by (induction qs) (simp_all add: scaleR_add_right)

lemma denote_scaled_plain_sum:
  "denote \<rho> \<iota> (ScaleBlock c (AddBlock (map f qs))) =
     (\<Sum>i\<leftarrow>qs. eval \<rho> c *\<^sub>R denote \<rho> \<iota> (f i))"
  by (induction qs) (simp_all add: scaleR_add_right)

lemma sum_list_three:
  fixes f g h :: "'b \<Rightarrow> 'a::real_vector"
  shows "(\<Sum>i\<leftarrow>qs. f i) - (\<Sum>i\<leftarrow>qs. g i) - (\<Sum>i\<leftarrow>qs. h i) = (\<Sum>i\<leftarrow>qs. f i - g i - h i)"
  by (induction qs) (simp_all add: algebra_simps)

text \<open>The drive constructor in closed form: the guard, then every attribute it assigns.\<close>

lemma AnalogDrive_init_unfold:
  "AnalogDrive_init env self0 register duration_arg omega_arg delta_arg phase_arg qs_arg ap_arg =
    (if eq_zero omega_arg \<and> eq_zero delta_arg
     then Inl (ValueError ''Parameters omega and delta cannot both be 0.'')
     else Inr (self0\<lparr>
       add_pattern := Some (default_arg True ap_arg),
       duration := Some (Parameter duration_arg),
       generator := Some (drive_generator env register (Parameter omega_arg)
          (Parameter delta_arg) (Parameter (default_arg (TNum 0) phase_arg))
          (case qs_arg of None \<Rightarrow> nodes env register | Some qs \<Rightarrow> qs)
          (default_arg True ap_arg)),
       evolution_parameter := Some (Binary Divide (Parameter duration_arg) (Constant 1000)),
       parameters := map_of
         [(''parameter'', Binary Divide (Parameter duration_arg) (Constant 1000)),
          (''duration'', Parameter duration_arg),
          (''alpha'', Binary Divide (Binary Times (Parameter duration_arg)
              (Unary Sqrt (Binary Plus (Binary Power (Parameter omega_arg) (Constant 2))
                                       (Binary Power (Parameter delta_arg) (Constant 2)))))
              (Constant 1000)),
          (''omega'', Parameter omega_arg),
          (''delta'', Parameter delta_arg),
          (''phase'', Parameter (default_arg (TNum 0) phase_arg)),
          (''h_norm'', Unary Sqrt (Binary Plus (Binary Power (Parameter omega_arg) (Constant 2))
                                       (Binary Power (Parameter delta_arg) (Constant 2))))]\<rparr>))"
  by (cases "rydberg_pattern_hamiltonian env register")
     (simp_all add: AnalogDrive_init_def Let_def expr_div_nonzero bind_result_Inr HamEvo_init_def
      ParamMap_def drive_generator_def scale_def add_def block_add_def block_sub_def
      cos_expr_def sin_expr_def sqrt_expr_def expr_add_def expr_mul_def expr_pow_def)

lemma AnalogInteraction_init_unfold:
  "AnalogInteraction_init env self0 register duration_arg ap_arg =
     Inr (self0\<lparr>
       add_pattern := Some (default_arg True ap_arg),
       duration := Some (Parameter duration_arg),
       generator := Some (case rydberg_pattern_hamiltonian env register of
            None \<Rightarrow> rydberg_interaction_hamiltonian env register
          | Some p \<Rightarrow> if default_arg True ap_arg
                      then AddBlock [rydberg_interaction_hamiltonian env register, p]
                      else rydberg_interaction_hamiltonian env register),
       evolution_parameter := Some (Binary Divide (Parameter duration_arg) (Constant 1000)),
       parameters := map_of
         [(''parameter'', Binary Divide (Parameter duration_arg) (Constant 1000)),
          (''duration'', Parameter duration_arg)]\<rparr>)"
  by (cases "rydberg_pattern_hamiltonian env register")
     (simp_all add: AnalogInteraction_init_def Let_def expr_div_nonzero bind_result_Inr
      HamEvo_init_def ParamMap_def block_add_def)

text \<open>Each rotation is the drive constructor run on the object that already holds the angle.\<close>

lemma AnalogRX_init_unfold:
  "AnalogRX_init env self0 register angle qs_arg ap_arg =
     AnalogDrive_init env (self0\<lparr>alpha := Some (Parameter angle)\<rparr>) register
       (TExpr (Binary Times (Binary Divide (Parameter angle) (Constant pi)) (Constant 1000)))
       (TNum pi) (TNum 0) (Some (TNum 0)) qs_arg (Some (default_arg True ap_arg))"
  by (simp add: AnalogRX_init_def Let_def expr_div_nonzero bind_result_Inr expr_mul_def)

lemma AnalogRY_init_unfold:
  "AnalogRY_init env self0 register angle qs_arg ap_arg =
     AnalogDrive_init env (self0\<lparr>alpha := Some (Parameter angle)\<rparr>) register
       (TExpr (Binary Times (Binary Divide (Parameter angle) (Constant pi)) (Constant 1000)))
       (TNum pi) (TNum 0) (Some (TNum (- pi / 2))) qs_arg (Some (default_arg True ap_arg))"
  by (simp add: AnalogRY_init_def Let_def expr_div_nonzero bind_result_Inr expr_mul_def)

lemma AnalogRZ_init_unfold:
  "AnalogRZ_init env self0 register angle qs_arg ap_arg =
     AnalogDrive_init env (self0\<lparr>alpha := Some (Parameter angle)\<rparr>) register
       (TExpr (Binary Times (Binary Divide (Parameter angle) (Constant pi)) (Constant 1000)))
       (TNum 0) (TNum pi) (Some (TNum 0)) qs_arg (Some (default_arg True ap_arg))"
  by (simp add: AnalogRZ_init_def Let_def expr_div_nonzero bind_result_Inr expr_mul_def)

text \<open>
  The operator of the assembled generator: the factor \<^verbatim>\<open>omega / 2\<close> and the factor
  \<^verbatim>\<open>delta\<close> distribute over the sums, and the three sums merge into one sum over the
  qubit support.
\<close>

lemma denote_pair: "denote \<rho> \<iota> (AddBlock [a, b]) = denote \<rho> \<iota> a + denote \<rho> \<iota> b"
  by simp

lemma denote_minus_one: "denote \<rho> \<iota> (ScaleBlock (Constant (- 1)) b) = - denote \<rho> \<iota> b"
  by simp

lemma denote_drive_generator:
  "denote \<rho> \<iota> (drive_generator env register omega delta phase qs flag) =
     (\<Sum>i\<leftarrow>qs. (eval \<rho> omega / 2 * cos (eval \<rho> phase)) *\<^sub>R \<iota> (X i)
            - (eval \<rho> omega / 2 * sin (eval \<rho> phase)) *\<^sub>R \<iota> (Y i)
            - eval \<rho> delta *\<^sub>R \<iota> (N i))
     + denote \<rho> \<iota> (rydberg_interaction_hamiltonian env register)
     + (case rydberg_pattern_hamiltonian env register of
          None \<Rightarrow> 0
        | Some p \<Rightarrow> if flag then denote \<rho> \<iota> p else 0)"
proof -
  let ?xs = "ScaleBlock (Binary Divide omega (Constant 2))
               (AddBlock (map (\<lambda>i. ScaleBlock (Unary Cos phase) (X i)) qs))"
  let ?ys = "ScaleBlock (Binary Divide omega (Constant 2))
               (AddBlock (map (\<lambda>i. ScaleBlock (Unary Sin phase) (Y i)) qs))"
  let ?ns = "ScaleBlock delta (AddBlock (map N qs))"
  let ?g = "AddBlock [AddBlock [AddBlock [?xs, ScaleBlock (Constant (- 1)) ?ys],
                 ScaleBlock (Constant (- 1)) ?ns],
               rydberg_interaction_hamiltonian env register]"
  have x: "denote \<rho> \<iota> ?xs = (\<Sum>i\<leftarrow>qs. (eval \<rho> omega / 2 * cos (eval \<rho> phase)) *\<^sub>R \<iota> (X i))"
    by (simp only: denote_scaled_sum) simp
  have y: "denote \<rho> \<iota> ?ys = (\<Sum>i\<leftarrow>qs. (eval \<rho> omega / 2 * sin (eval \<rho> phase)) *\<^sub>R \<iota> (Y i))"
    by (simp only: denote_scaled_sum) simp
  have n: "denote \<rho> \<iota> ?ns = (\<Sum>i\<leftarrow>qs. eval \<rho> delta *\<^sub>R \<iota> (N i))"
    by (simp only: denote_scaled_plain_sum) simp
  have "denote \<rho> \<iota> ?g = denote \<rho> \<iota> ?xs - denote \<rho> \<iota> ?ys - denote \<rho> \<iota> ?ns
       + denote \<rho> \<iota> (rydberg_interaction_hamiltonian env register)"
    by (simp only: denote_pair denote_minus_one) simp
  then have core: "denote \<rho> \<iota> ?g =
     (\<Sum>i\<leftarrow>qs. (eval \<rho> omega / 2 * cos (eval \<rho> phase)) *\<^sub>R \<iota> (X i)
            - (eval \<rho> omega / 2 * sin (eval \<rho> phase)) *\<^sub>R \<iota> (Y i)
            - eval \<rho> delta *\<^sub>R \<iota> (N i))
     + denote \<rho> \<iota> (rydberg_interaction_hamiltonian env register)"
    by (simp only: x y n sum_list_three)
  show ?thesis
  proof (cases "rydberg_pattern_hamiltonian env register")
    case None
    then show ?thesis
      unfolding drive_generator_def Let_def by (simp only: option.case core add_0_right)
  next
    case (Some p)
    have pair: "denote \<rho> \<iota> (AddBlock [?g, p]) = denote \<rho> \<iota> ?g + denote \<rho> \<iota> p"
      by (rule denote_pair)
    from Some show ?thesis
      unfolding drive_generator_def Let_def
      by (cases flag) (simp_all only: option.case if_True if_False pair core add_0_right)
  qed
qed

subsection \<open>The generator of the generic drive\<close>

text \<open>
  Claim C1. For every register, duration, omega, delta, phase and non-empty qubit support,
  the generator that \<^verbatim>\<open>AnalogDrive\<close> builds is, as an operator, the sum over the qubits
  \<open>i\<close> of the support of \<open>(omega/2) cos(phase) X(i)\<close>, minus \<open>(omega/2) sin(phase) Y(i)\<close>,
  minus \<open>delta N(i)\<close>, plus the interaction term, plus the pattern term exactly when the
  inclusion flag is set and a pattern exists. The equality holds for every value of the
  free variables and every interpretation of the leaves in a real vector space.
\<close>

theorem drive_generator_formula:
  assumes built: "AnalogDrive env register duration_arg omega_arg delta_arg phase_arg
                    qubit_support_arg add_pattern_arg = Inr op"
      and support: "qs = (case qubit_support_arg of None \<Rightarrow> nodes env register | Some s \<Rightarrow> s)"
      and nonempty: "qs \<noteq> []"
  shows "\<exists>g. generator op = Some g \<and>
           denote \<rho> \<iota> g =
             (\<Sum>i\<leftarrow>qs.
                  (eval \<rho> (Parameter omega_arg) / 2
                     * cos (eval \<rho> (Parameter (default_arg (TNum 0) phase_arg)))) *\<^sub>R \<iota> (X i)
                - (eval \<rho> (Parameter omega_arg) / 2
                     * sin (eval \<rho> (Parameter (default_arg (TNum 0) phase_arg)))) *\<^sub>R \<iota> (Y i)
                - eval \<rho> (Parameter delta_arg) *\<^sub>R \<iota> (N i))
             + denote \<rho> \<iota> (rydberg_interaction_hamiltonian env register)
             + (case rydberg_pattern_hamiltonian env register of
                  None \<Rightarrow> 0
                | Some p \<Rightarrow> if default_arg True add_pattern_arg then denote \<rho> \<iota> p else 0)"
proof -
  from built have ok: "\<not> (eq_zero omega_arg \<and> eq_zero delta_arg)"
    by (auto simp add: AnalogDrive_def AnalogDrive_init_unfold)
  from built ok have "generator op = Some (drive_generator env register (Parameter omega_arg)
          (Parameter delta_arg) (Parameter (default_arg (TNum 0) phase_arg)) qs
          (default_arg True add_pattern_arg))"
    unfolding AnalogDrive_def AnalogDrive_init_unfold support by auto
  then show ?thesis
    by (simp add: denote_drive_generator)
qed

text \<open>
  The statement at a two-qubit register with a pattern, \<open>omega = 2\<close>, \<open>delta = 3\<close> and
  \<open>phase = 0\<close>.
\<close>

theorem drive_generator_formula_witness:
  "\<exists>op. AnalogDrive sample_env () (TNum 1000) (TNum 2) (TNum 3) (Some (TNum 0))
           (Some [0, 1]) (Some True) = Inr op
       \<and> [0, 1] \<noteq> ([] :: nat list)
       \<and> (\<exists>g. generator op = Some g \<and> denote sample_rho sample_iota g = 1403)"
proof -
  obtain op where built: "AnalogDrive sample_env () (TNum 1000) (TNum 2) (TNum 3)
      (Some (TNum 0)) (Some [0, 1]) (Some True) = Inr op"
    by (simp add: AnalogDrive_def AnalogDrive_init_unfold)
  have "\<exists>g. generator op = Some g \<and> denote sample_rho sample_iota g = 1403"
    using drive_generator_formula [OF built, of "[0, 1]" sample_rho sample_iota]
    by (simp add: sample_env_def)
  with built show ?thesis by blast
qed

subsection \<open>The guard against a drive without amplitude and detuning\<close>

text \<open>
  Claim C2. Constructing \<^verbatim>\<open>AnalogDrive\<close> with omega and delta both the literal constant
  zero (the number \<open>0\<close> or the constant expression \<open>0\<close>) fails with the error
  "Parameters omega and delta cannot both be 0."; for every other pair, among them
  \<open>omega = 0\<close> with a nonzero delta and any free or compound expression on either side,
  the construction succeeds.
\<close>

theorem zero_drive_rejected:
  "(omega_arg \<in> {TNum 0, TExpr (Constant 0)} \<and> delta_arg \<in> {TNum 0, TExpr (Constant 0)} \<longrightarrow>
      AnalogDrive env register duration_arg omega_arg delta_arg phase_arg qubit_support_arg
        add_pattern_arg = Inl (ValueError ''Parameters omega and delta cannot both be 0.''))
   \<and> (\<not> (omega_arg \<in> {TNum 0, TExpr (Constant 0)} \<and> delta_arg \<in> {TNum 0, TExpr (Constant 0)}) \<longrightarrow>
      (\<exists>op. AnalogDrive env register duration_arg omega_arg delta_arg phase_arg
               qubit_support_arg add_pattern_arg = Inr op))"
proof -
  have z: "eq_zero p \<longleftrightarrow> p \<in> {TNum 0, TExpr (Constant 0)}" for p
    by (cases p) auto
  show ?thesis
    by (simp only: AnalogDrive_def AnalogDrive_init_unfold z) simp
qed

text \<open>
  The statement at four pairs: both zero, zero amplitude with detuning \<open>3\<close>, a free
  variable with zero detuning, and two compound expressions whose value is zero.
\<close>

theorem zero_drive_rejected_witness:
  "AnalogDrive sample_env () (TNum 1000) (TNum 0) (TExpr (Constant 0)) None None None
      = Inl (ValueError ''Parameters omega and delta cannot both be 0.'')
   \<and> (\<exists>op. AnalogDrive sample_env () (TNum 1000) (TNum 0) (TNum 3) None None None = Inr op)
   \<and> (\<exists>op. AnalogDrive sample_env () (TNum 1000) (TStr ''w'') (TNum 0) None None None = Inr op)
   \<and> (\<exists>op. AnalogDrive sample_env () (TNum 1000)
              (TExpr (Binary Minus (FreeVariable ''w'') (FreeVariable ''w'')))
              (TExpr (Binary Times (Constant 0) (Constant 0))) None None None = Inr op)"
  using zero_drive_rejected [of "TNum 0" "TExpr (Constant 0)" sample_env "()" "TNum 1000" None None None]
        zero_drive_rejected [of "TNum 0" "TNum 3" sample_env "()" "TNum 1000" None None None]
        zero_drive_rejected [of "TStr ''w''" "TNum 0" sample_env "()" "TNum 1000" None None None]
        zero_drive_rejected [of "TExpr (Binary Minus (FreeVariable ''w'') (FreeVariable ''w''))"
           "TExpr (Binary Times (Constant 0) (Constant 0))" sample_env "()" "TNum 1000" None None None]
  by simp

subsection \<open>The scaling of the duration\<close>

text \<open>
  Claim C3. For every operation variant (the interaction, the generic drive and the three
  rotations) the duration handed to the time-evolution primitive is the requested duration
  divided by \<open>1000\<close>, and the role \<^verbatim>\<open>parameter\<close> of the parameter map holds exactly
  this expression. For a rotation the requested duration is the one it passes to the
  drive constructor, \<open>angle / \<pi> * 1000\<close>.
\<close>

theorem scaled_duration_uniform:
  "(\<exists>op. AnalogInteraction env register duration_arg add_pattern_arg = Inr op
        \<and> duration op = Some (Parameter duration_arg)
        \<and> evolution_parameter op = Some (Binary Divide (Parameter duration_arg) (Constant 1000))
        \<and> parameters op ''parameter'' = evolution_parameter op)
   \<and> (\<forall>op. AnalogDrive env register duration_arg omega_arg delta_arg phase_arg
               qubit_support_arg add_pattern_arg = Inr op
        \<longrightarrow> duration op = Some (Parameter duration_arg)
          \<and> evolution_parameter op = Some (Binary Divide (Parameter duration_arg) (Constant 1000))
          \<and> parameters op ''parameter'' = evolution_parameter op)
   \<and> (\<forall>rotation \<in> {AnalogRX, AnalogRY, AnalogRZ}.
        \<exists>op requested. rotation env register angle qubit_support_arg add_pattern_arg = Inr op
        \<and> requested = Binary Times (Binary Divide (Parameter angle) (Constant pi)) (Constant 1000)
        \<and> duration op = Some requested
        \<and> evolution_parameter op = Some (Binary Divide requested (Constant 1000))
        \<and> parameters op ''parameter'' = evolution_parameter op)"
  by (auto simp add: AnalogInteraction_def AnalogInteraction_init_unfold
        AnalogDrive_def AnalogDrive_init_unfold AnalogRX_def AnalogRX_init_unfold
        AnalogRY_def AnalogRY_init_unfold AnalogRZ_def AnalogRZ_init_unfold split: if_splits)

text \<open>The statement at a drive of duration \<open>500\<close> and at a rotation about Z.\<close>

theorem scaled_duration_uniform_witness:
  "(\<exists>op. AnalogDrive sample_env () (TNum 500) (TNum 2) (TNum 3) None None None = Inr op
        \<and> duration op = Some (Constant 500)
        \<and> evolution_parameter op = Some (Binary Divide (Constant 500) (Constant 1000))
        \<and> parameters op ''parameter'' = Some (Binary Divide (Constant 500) (Constant 1000)))
   \<and> (\<exists>op. AnalogRZ sample_env () (TStr ''theta'') None None = Inr op
        \<and> evolution_parameter op = Some (Binary Divide
              (Binary Times (Binary Divide (FreeVariable ''theta'') (Constant pi)) (Constant 1000))
              (Constant 1000))
        \<and> parameters op ''parameter'' = evolution_parameter op)"
proof -
  obtain op where built: "AnalogDrive sample_env () (TNum 500) (TNum 2) (TNum 3) None None None = Inr op"
    by (simp add: AnalogDrive_def AnalogDrive_init_unfold)
  note fact = scaled_duration_uniform [where env = sample_env and register = "()"
      and duration_arg = "TNum 500" and omega_arg = "TNum 2" and delta_arg = "TNum 3"
      and phase_arg = None and qubit_support_arg = None and add_pattern_arg = None
      and angle = "TStr ''theta''"]
  from fact built have "duration op = Some (Constant 500)
        \<and> evolution_parameter op = Some (Binary Divide (Constant 500) (Constant 1000))
        \<and> parameters op ''parameter'' = Some (Binary Divide (Constant 500) (Constant 1000))"
    by simp
  moreover from fact have "\<exists>op. AnalogRZ sample_env () (TStr ''theta'') None None = Inr op
        \<and> evolution_parameter op = Some (Binary Divide
              (Binary Times (Binary Divide (FreeVariable ''theta'') (Constant pi)) (Constant 1000))
              (Constant 1000))
        \<and> parameters op ''parameter'' = evolution_parameter op"
    by auto
  ultimately show ?thesis using built by blast
qed

subsection \<open>The derived roles of the parameter map\<close>

text \<open>
  Claim C4. For every successfully constructed generic drive, the role \<^verbatim>\<open>h_norm\<close> of
  the parameter map is the expression \<open>sqrt(omega^2 + delta^2)\<close> and the role
  \<^verbatim>\<open>alpha\<close> is the expression \<open>duration * h_norm / 1000\<close>, built from the constructor
  arguments; their values are the corresponding real numbers.
\<close>

theorem derived_roles:
  assumes built: "AnalogDrive env register duration_arg omega_arg delta_arg phase_arg
                    qubit_support_arg add_pattern_arg = Inr op"
  shows "\<exists>h_norm alpha_role.
           h_norm = Unary Sqrt (Binary Plus (Binary Power (Parameter omega_arg) (Constant 2))
                                            (Binary Power (Parameter delta_arg) (Constant 2)))
         \<and> alpha_role = Binary Divide (Binary Times (Parameter duration_arg) h_norm) (Constant 1000)
         \<and> parameters op ''h_norm'' = Some h_norm
         \<and> parameters op ''alpha'' = Some alpha_role
         \<and> eval \<rho> h_norm = sqrt ((eval \<rho> (Parameter omega_arg))\<^sup>2 + (eval \<rho> (Parameter delta_arg))\<^sup>2)
         \<and> eval \<rho> alpha_role = eval \<rho> (Parameter duration_arg) * eval \<rho> h_norm / 1000"
  using built
  by (auto simp add: AnalogDrive_def AnalogDrive_init_unfold pow_real_two split: if_splits)

text \<open>The statement at \<open>omega = 3\<close>, \<open>delta = 4\<close> and duration \<open>2000\<close>.\<close>

theorem derived_roles_witness:
  "\<exists>op. AnalogDrive sample_env () (TNum 2000) (TNum 3) (TNum 4) None None None = Inr op
      \<and> (\<exists>h_norm alpha_role. parameters op ''h_norm'' = Some h_norm
            \<and> parameters op ''alpha'' = Some alpha_role
            \<and> eval sample_rho h_norm = 5 \<and> eval sample_rho alpha_role = 10)"
proof -
  obtain op where built: "AnalogDrive sample_env () (TNum 2000) (TNum 3) (TNum 4) None None None = Inr op"
    by (simp add: AnalogDrive_def AnalogDrive_init_unfold)
  have "sqrt (25::real) = 5"
    using real_sqrt_abs [of 5] by simp
  with derived_roles [OF built, of sample_rho]
  have "\<exists>h_norm alpha_role. parameters op ''h_norm'' = Some h_norm
            \<and> parameters op ''alpha'' = Some alpha_role
            \<and> eval sample_rho h_norm = 5 \<and> eval sample_rho alpha_role = 10"
    by auto
  with built show ?thesis by blast
qed

subsection \<open>The rotations as presets of the drive\<close>

text \<open>
  Claim C5. For every angle \<open>\<theta>\<close>, the rotation about X fixes \<open>omega = \<pi>\<close>, \<open>delta = 0\<close>,
  \<open>phase = 0\<close>, requests the duration \<open>\<theta> / omega * 1000\<close> and so hands the duration
  \<open>\<theta> / \<pi>\<close> to the evolution primitive; the rotation about Z fixes \<open>omega = 0\<close>,
  \<open>delta = \<pi>\<close>, \<open>phase = 0\<close>, requests the duration \<open>\<theta> / delta * 1000\<close> (the divisor is
  the detuning \<open>\<pi>\<close>, not the amplitude \<open>0\<close>) and hands over \<open>\<theta> / \<pi>\<close> as well.
\<close>

theorem rotation_x_z_presets:
  "(\<exists>op requested. AnalogRX env register angle qubit_support_arg add_pattern_arg = Inr op
        \<and> parameters op ''omega'' = Some (Constant pi)
        \<and> parameters op ''delta'' = Some (Constant 0)
        \<and> parameters op ''phase'' = Some (Constant 0)
        \<and> requested = Binary Times (Binary Divide (Parameter angle) (Constant pi)) (Constant 1000)
        \<and> duration op = Some requested
        \<and> evolution_parameter op = Some (Binary Divide requested (Constant 1000))
        \<and> eval \<rho> (Binary Divide requested (Constant 1000)) = eval \<rho> (Parameter angle) / pi)
   \<and> (\<exists>op requested. AnalogRZ env register angle qubit_support_arg add_pattern_arg = Inr op
        \<and> parameters op ''omega'' = Some (Constant 0)
        \<and> parameters op ''delta'' = Some (Constant pi)
        \<and> parameters op ''phase'' = Some (Constant 0)
        \<and> requested = Binary Times (Binary Divide (Parameter angle) (Constant pi)) (Constant 1000)
        \<and> duration op = Some requested
        \<and> evolution_parameter op = Some (Binary Divide requested (Constant 1000))
        \<and> eval \<rho> (Binary Divide requested (Constant 1000)) = eval \<rho> (Parameter angle) / pi)"
  by (simp add: AnalogRX_def AnalogRX_init_unfold AnalogRZ_def AnalogRZ_init_unfold
        AnalogDrive_init_unfold)

text \<open>
  Claim C6. For every register, angle, qubit support and pattern flag, the rotation about
  Y differs from the rotation about X only in the fixed phase, \<open>- \<pi> / 2\<close> instead of
  \<open>0\<close>: both are the drive constructor run with the same arguments but the phase, every
  role of the parameter map other than \<^verbatim>\<open>phase\<close> agrees (among them \<^verbatim>\<open>alpha\<close> and
  \<^verbatim>\<open>h_norm\<close>), and so does the duration handed to the evolution primitive.
\<close>

theorem rotation_y_versus_x:
  "\<exists>ox oy requested h_norm.
      AnalogRX env register angle qubit_support_arg add_pattern_arg = Inr ox
    \<and> AnalogRY env register angle qubit_support_arg add_pattern_arg = Inr oy
    \<and> parameters ox ''phase'' = Some (Constant 0)
    \<and> parameters oy ''phase'' = Some (Constant (- pi / 2))
    \<and> (\<forall>role. role \<noteq> ''phase'' \<longrightarrow> parameters ox role = parameters oy role)
    \<and> requested = Binary Times (Binary Divide (Parameter angle) (Constant pi)) (Constant 1000)
    \<and> h_norm = Unary Sqrt (Binary Plus (Binary Power (Constant pi) (Constant 2))
                                        (Binary Power (Constant 0) (Constant 2)))
    \<and> parameters ox ''h_norm'' = Some h_norm \<and> parameters oy ''h_norm'' = Some h_norm
    \<and> parameters ox ''alpha'' = Some (Binary Divide (Binary Times requested h_norm) (Constant 1000))
    \<and> parameters oy ''alpha'' = Some (Binary Divide (Binary Times requested h_norm) (Constant 1000))
    \<and> evolution_parameter ox = Some (Binary Divide requested (Constant 1000))
    \<and> evolution_parameter oy = Some (Binary Divide requested (Constant 1000))
    \<and> duration ox = Some requested \<and> duration oy = Some requested
    \<and> alpha ox = Some (Parameter angle) \<and> alpha oy = Some (Parameter angle)
    \<and> add_pattern ox = add_pattern oy
    \<and> Inr ox = AnalogDrive_init env (new_object\<lparr>alpha := Some (Parameter angle)\<rparr>) register
         (TExpr requested) (TNum pi) (TNum 0) (Some (TNum 0)) qubit_support_arg
         (Some (default_arg True add_pattern_arg))
    \<and> Inr oy = AnalogDrive_init env (new_object\<lparr>alpha := Some (Parameter angle)\<rparr>) register
         (TExpr requested) (TNum pi) (TNum 0) (Some (TNum (- pi / 2))) qubit_support_arg
         (Some (default_arg True add_pattern_arg))"
  by (simp add: AnalogRX_def AnalogRX_init_unfold AnalogRY_def AnalogRY_init_unfold
        AnalogDrive_init_unfold new_object_def)

text \<open>The statement at the angle \<open>theta\<close> on the support \<open>[1]\<close>, read at the role \<^verbatim>\<open>omega\<close>.\<close>

theorem rotation_y_versus_x_witness:
  "\<exists>ox oy. AnalogRX sample_env () (TStr ''theta'') (Some [1]) None = Inr ox
         \<and> AnalogRY sample_env () (TStr ''theta'') (Some [1]) None = Inr oy
         \<and> ''omega'' \<noteq> ''phase''
         \<and> parameters ox ''omega'' = parameters oy ''omega''
         \<and> parameters ox ''phase'' \<noteq> parameters oy ''phase''"
proof -
  from rotation_y_versus_x [of sample_env "()" "TStr ''theta''" "Some [1]" None]
  obtain ox oy where
    "AnalogRX sample_env () (TStr ''theta'') (Some [1]) None = Inr ox"
    "AnalogRY sample_env () (TStr ''theta'') (Some [1]) None = Inr oy"
    "parameters ox ''phase'' = Some (Constant 0)"
    "parameters oy ''phase'' = Some (Constant (- pi / 2))"
    "\<forall>role. role \<noteq> ''phase'' \<longrightarrow> parameters ox role = parameters oy role"
    by blast
  moreover have "''omega'' \<noteq> ''phase''" by simp
  ultimately show ?thesis by auto
qed

subsection \<open>The pattern term\<close>

text \<open>
  Claim C7. When the register has no pattern, every operation built on it has the same
  generator (or raises the same error) whatever the inclusion flag is, omitted, true or
  false; and the interaction operation built with the flag false has the interaction term
  alone as its generator, whether or not a pattern exists.
\<close>

theorem absent_pattern_is_neutral:
  "(rydberg_pattern_hamiltonian env register = None \<longrightarrow>
       map_sum id generator (AnalogInteraction env register duration_arg flag)
         = map_sum id generator (AnalogInteraction env register duration_arg flag')
     \<and> map_sum id generator (AnalogDrive env register duration_arg omega_arg delta_arg
           phase_arg qubit_support_arg flag)
         = map_sum id generator (AnalogDrive env register duration_arg omega_arg delta_arg
           phase_arg qubit_support_arg flag')
     \<and> (\<forall>rotation \<in> {AnalogRX, AnalogRY, AnalogRZ}.
          map_sum id generator (rotation env register angle qubit_support_arg flag)
            = map_sum id generator (rotation env register angle qubit_support_arg flag')))
   \<and> (\<exists>op. AnalogInteraction env register duration_arg (Some False) = Inr op
          \<and> generator op = Some (rydberg_interaction_hamiltonian env register))"
proof -
  have a: "drive_generator env register w d p qs f = drive_generator env register w d p qs f'"
    if "rydberg_pattern_hamiltonian env register = None" for w d p qs f f'
    using that by (simp add: drive_generator_def)
  have b: "\<exists>op. AnalogInteraction env register duration_arg (Some False) = Inr op
          \<and> generator op = Some (rydberg_interaction_hamiltonian env register)"
    by (cases "rydberg_pattern_hamiltonian env register")
       (simp_all add: AnalogInteraction_def AnalogInteraction_init_unfold)
  show ?thesis
    using b
    by (auto simp add: AnalogInteraction_def AnalogInteraction_init_unfold
        AnalogDrive_def AnalogDrive_init_unfold AnalogRX_def AnalogRX_init_unfold
        AnalogRY_def AnalogRY_init_unfold AnalogRZ_def AnalogRZ_init_unfold a)
qed

text \<open>
  The statement at the register without a pattern, for a drive and a rotation, and at the
  register with a pattern for the interaction operation.
\<close>

theorem absent_pattern_is_neutral_witness:
  "rydberg_pattern_hamiltonian sample_env_no_pattern () = None
   \<and> map_sum id generator (AnalogDrive sample_env_no_pattern () (TNum 1000) (TNum 2) (TNum 3)
         None None (Some True))
       = map_sum id generator (AnalogDrive sample_env_no_pattern () (TNum 1000) (TNum 2) (TNum 3)
         None None (Some False))
   \<and> map_sum id generator (AnalogRY sample_env_no_pattern () (TStr ''theta'') None None)
       = map_sum id generator (AnalogRY sample_env_no_pattern () (TStr ''theta'') None (Some False))
   \<and> (\<exists>op. AnalogInteraction sample_env () (TNum 1000) (Some False) = Inr op
          \<and> generator op = Some (Opaque 0))"
proof -
  have none: "rydberg_pattern_hamiltonian sample_env_no_pattern () = None"
    by (simp add: sample_env_no_pattern_def)
  have int: "rydberg_interaction_hamiltonian sample_env () = Opaque 0"
    by (simp add: sample_env_def)
  show ?thesis
    using none
      absent_pattern_is_neutral [where env = sample_env_no_pattern and register = "()"
        and duration_arg = "TNum 1000" and omega_arg = "TNum 2" and delta_arg = "TNum 3"
        and phase_arg = None and qubit_support_arg = None and flag = "Some True"
        and flag' = "Some False" and angle = "TStr ''theta''"]
      absent_pattern_is_neutral [where env = sample_env_no_pattern and register = "()"
        and duration_arg = "TNum 1000" and omega_arg = "TNum 2" and delta_arg = "TNum 3"
        and phase_arg = None and qubit_support_arg = None and flag = "None"
        and flag' = "Some False" and angle = "TStr ''theta''"]
      absent_pattern_is_neutral [where env = sample_env and register = "()"
        and duration_arg = "TNum 1000"]
    by (simp only: int) blast
qed

subsection \<open>The end-to-end drive, the two alphas and the defaults\<close>

text \<open>An expression is never equal to a quotient that contains it.\<close>

lemma expr_not_inside_quotient:
  "Binary Divide (Binary Times (Binary Times (Binary Divide e c) k) h) m \<noteq> e"
proof
  assume "Binary Divide (Binary Times (Binary Times (Binary Divide e c) k) h) m = e"
  then have "size (Binary Divide (Binary Times (Binary Times (Binary Divide e c) k) h) m) = size e"
    by simp
  then show False by simp
qed

text \<open>
  Claim C8, as stated, fails: for the drive on the support \<open>[0, 1]\<close> with \<open>omega = \<pi>\<close>,
  \<open>delta = 0\<close>, \<open>phase = 0\<close> and duration \<open>1000\<close>, the role \<^verbatim>\<open>parameter\<close> is the
  expression \<open>1000 / 1000\<close>, whose value is \<open>1\<close> and not \<open>\<pi> / 1000\<close>.
\<close>

theorem drive_end_to_end_counterexample:
  "\<not> isl (AnalogDrive sample_env_no_pattern () (TNum 1000) (TNum pi) (TNum 0) (Some (TNum 0))
            (Some [0, 1]) None)
   \<and> parameters (projr (AnalogDrive sample_env_no_pattern () (TNum 1000) (TNum pi) (TNum 0)
         (Some (TNum 0)) (Some [0, 1]) None)) ''parameter''
       = Some (Binary Divide (Constant 1000) (Constant 1000))
   \<and> eval sample_rho (Binary Divide (Constant 1000) (Constant 1000)) = 1
   \<and> eval sample_rho (Binary Divide (Constant 1000) (Constant 1000)) \<noteq> pi / 1000"
proof -
  have "pi \<noteq> 1000" using pi_less_4 by simp
  then show ?thesis
    by (simp add: AnalogDrive_def AnalogDrive_init_unfold)
qed

text \<open>
  Claim C8, amended. The generic drive on the two-qubit support \<open>[0, 1]\<close> with
  \<open>omega = \<pi>\<close>, \<open>delta = 0\<close>, \<open>phase = 0\<close> and duration \<open>1000\<close> has a generator equal to
  \<open>(\<pi>/2) (X(0) + X(1))\<close> plus the interaction term (plus the pattern term when the flag is
  set and a pattern exists); the role \<^verbatim>\<open>parameter\<close> is the scaled duration
  \<open>1000 / 1000\<close>, the expression handed to the evolution primitive, and its value is \<open>1\<close>.
\<close>

theorem drive_end_to_end:
  "\<exists>op g e. AnalogDrive env register (TNum 1000) (TNum pi) (TNum 0) (Some (TNum 0))
               (Some [0, 1]) add_pattern_arg = Inr op
     \<and> generator op = Some g
     \<and> denote \<rho> \<iota> g = (pi / 2) *\<^sub>R (\<iota> (X 0) + \<iota> (X 1))
          + denote \<rho> \<iota> (rydberg_interaction_hamiltonian env register)
          + (case rydberg_pattern_hamiltonian env register of
               None \<Rightarrow> 0
             | Some p \<Rightarrow> if default_arg True add_pattern_arg then denote \<rho> \<iota> p else 0)
     \<and> e = Binary Divide (Constant 1000) (Constant 1000)
     \<and> parameters op ''parameter'' = Some e
     \<and> evolution_parameter op = Some e
     \<and> eval \<rho> e = 1"
  by (simp add: AnalogDrive_def AnalogDrive_init_unfold denote_drive_generator scaleR_add_right)

text \<open>
  Claim C9. For every rotation (X, Y, Z) and every angle, the angle given by the caller is
  stored in the attribute \<^verbatim>\<open>alpha\<close> of the instance, and the derived expression
  \<open>duration * h_norm / 1000\<close> in the role \<^verbatim>\<open>alpha\<close> of the parameter map. The two are
  different expressions in different places, the drive constructor leaves the attribute
  as it finds it, and the two have the same value.
\<close>

theorem two_alphas:
  "(\<forall>rotation \<in> {AnalogRX, AnalogRY, AnalogRZ}.
      \<exists>op derived. rotation env register angle qubit_support_arg add_pattern_arg = Inr op
        \<and> alpha op = Some (Parameter angle)
        \<and> parameters op ''alpha'' = Some derived
        \<and> (\<exists>h_norm. parameters op ''h_norm'' = Some h_norm
               \<and> derived = Binary Divide (Binary Times
                    (Binary Times (Binary Divide (Parameter angle) (Constant pi)) (Constant 1000))
                    h_norm) (Constant 1000))
        \<and> derived \<noteq> Parameter angle
        \<and> eval \<rho> derived = eval \<rho> (Parameter angle))
   \<and> (\<forall>self op. AnalogDrive_init env self register duration_arg omega_arg delta_arg phase_arg
                   qubit_support_arg add_pattern_arg = Inr op \<longrightarrow> alpha op = alpha self)"
  by (auto simp add: AnalogRX_def AnalogRX_init_unfold AnalogRY_def AnalogRY_init_unfold
        AnalogRZ_def AnalogRZ_init_unfold AnalogDrive_init_unfold new_object_def
        expr_not_inside_quotient pow_real_two split: if_splits)

text \<open>
  The statement at a rotation about Z by the angle \<open>2\<close>, and at a drive constructor run
  on an object whose attribute \<^verbatim>\<open>alpha\<close> holds \<open>7\<close>.
\<close>

theorem two_alphas_witness:
  "(\<exists>op derived. AnalogRZ sample_env () (TNum 2) None None = Inr op
        \<and> alpha op = Some (Constant 2)
        \<and> parameters op ''alpha'' = Some derived
        \<and> derived \<noteq> Constant 2
        \<and> eval sample_rho derived = 2)
   \<and> alpha (projr (AnalogDrive_init sample_env (new_object\<lparr>alpha := Some (Constant 7)\<rparr>) ()
        (TNum 1000) (TNum 2) (TNum 3) None None None)) = Some (Constant 7)"
proof -
  note fact = two_alphas [where env = sample_env and register = "()" and angle = "TNum 2"
      and qubit_support_arg = None and add_pattern_arg = None and \<rho> = sample_rho
      and duration_arg = "TNum 1000" and omega_arg = "TNum 2" and delta_arg = "TNum 3"
      and phase_arg = None]
  obtain op where built: "AnalogDrive_init sample_env (new_object\<lparr>alpha := Some (Constant 7)\<rparr>) ()
        (TNum 1000) (TNum 2) (TNum 3) None None None = Inr op"
    by (simp add: AnalogDrive_init_unfold)
  with fact have "alpha op = alpha (new_object\<lparr>alpha := Some (Constant 7)\<rparr>)"
    by blast
  then have "alpha (projr (AnalogDrive_init sample_env (new_object\<lparr>alpha := Some (Constant 7)\<rparr>) ()
        (TNum 1000) (TNum 2) (TNum 3) None None None)) = Some (Constant 7)"
    by (simp add: built)
  moreover from fact have "\<exists>op derived. AnalogRZ sample_env () (TNum 2) None None = Inr op
        \<and> alpha op = Some (Constant 2)
        \<and> parameters op ''alpha'' = Some derived
        \<and> derived \<noteq> Constant 2
        \<and> eval sample_rho derived = 2"
    by auto
  ultimately show ?thesis by blast
qed

text \<open>
  Claim C10. Each default of \<^verbatim>\<open>AnalogDrive\<close> holds on its own. When the phase is
  omitted, whatever the inclusion flag is, the call is the call with phase \<open>0\<close> written
  out: the phase is the literal constant \<open>0\<close>, the coefficient \<open>(omega/2) sin(phase)\<close> of
  every \<open>Y(i)\<close> is zero and the coefficient of every \<open>X(i)\<close> is \<open>omega/2\<close>. When the
  inclusion flag is omitted, whatever the phase is, the call is the call with the flag
  true written out: the flag stored is true and the pattern term is included whenever a
  pattern exists.
\<close>

theorem drive_defaults:
  assumes support: "qs = (case qubit_support_arg of None \<Rightarrow> nodes env register | Some s \<Rightarrow> s)"
  shows "AnalogDrive env register duration_arg omega_arg delta_arg None
            qubit_support_arg add_pattern_arg
          = AnalogDrive env register duration_arg omega_arg delta_arg (Some (TNum 0))
            qubit_support_arg add_pattern_arg
       \<and> (\<forall>op. AnalogDrive env register duration_arg omega_arg delta_arg None
                   qubit_support_arg add_pattern_arg = Inr op \<longrightarrow>
              parameters op ''phase'' = Some (Constant 0)
            \<and> eval \<rho> (Parameter omega_arg) / 2 * sin (eval \<rho> (Constant 0)) = 0
            \<and> eval \<rho> (Parameter omega_arg) / 2 * cos (eval \<rho> (Constant 0))
                 = eval \<rho> (Parameter omega_arg) / 2
            \<and> (\<exists>g. generator op = Some g \<and>
                  denote \<rho> \<iota> g =
                    (\<Sum>i\<leftarrow>qs. (eval \<rho> (Parameter omega_arg) / 2) *\<^sub>R \<iota> (X i)
                             - eval \<rho> (Parameter delta_arg) *\<^sub>R \<iota> (N i))
                    + denote \<rho> \<iota> (rydberg_interaction_hamiltonian env register)
                    + (case rydberg_pattern_hamiltonian env register of
                         None \<Rightarrow> 0
                       | Some p \<Rightarrow> if add_pattern op = Some True then denote \<rho> \<iota> p else 0)))
       \<and> AnalogDrive env register duration_arg omega_arg delta_arg phase_arg
            qubit_support_arg None
          = AnalogDrive env register duration_arg omega_arg delta_arg phase_arg
            qubit_support_arg (Some True)
       \<and> (\<forall>op. AnalogDrive env register duration_arg omega_arg delta_arg phase_arg
                   qubit_support_arg None = Inr op \<longrightarrow>
              add_pattern op = Some True
            \<and> (\<exists>g \<phi>. generator op = Some g \<and> parameters op ''phase'' = Some \<phi> \<and>
                  denote \<rho> \<iota> g =
                    (\<Sum>i\<leftarrow>qs. (eval \<rho> (Parameter omega_arg) / 2 * cos (eval \<rho> \<phi>)) *\<^sub>R \<iota> (X i)
                             - (eval \<rho> (Parameter omega_arg) / 2 * sin (eval \<rho> \<phi>)) *\<^sub>R \<iota> (Y i)
                             - eval \<rho> (Parameter delta_arg) *\<^sub>R \<iota> (N i))
                    + denote \<rho> \<iota> (rydberg_interaction_hamiltonian env register)
                    + (case rydberg_pattern_hamiltonian env register of
                         None \<Rightarrow> 0 | Some p \<Rightarrow> denote \<rho> \<iota> p)))"
proof -
  have phase_default: "AnalogDrive env register duration_arg omega_arg delta_arg None
            qubit_support_arg add_pattern_arg
          = AnalogDrive env register duration_arg omega_arg delta_arg (Some (TNum 0))
            qubit_support_arg add_pattern_arg"
    by (simp add: AnalogDrive_def AnalogDrive_init_unfold)
  have flag_default: "AnalogDrive env register duration_arg omega_arg delta_arg phase_arg
            qubit_support_arg None
          = AnalogDrive env register duration_arg omega_arg delta_arg phase_arg
            qubit_support_arg (Some True)"
    by (simp add: AnalogDrive_def AnalogDrive_init_unfold)
  have no_phase: "parameters op ''phase'' = Some (Constant 0)
            \<and> eval \<rho> (Parameter omega_arg) / 2 * sin (eval \<rho> (Constant 0)) = 0
            \<and> eval \<rho> (Parameter omega_arg) / 2 * cos (eval \<rho> (Constant 0))
                 = eval \<rho> (Parameter omega_arg) / 2
            \<and> (\<exists>g. generator op = Some g \<and>
                  denote \<rho> \<iota> g =
                    (\<Sum>i\<leftarrow>qs. (eval \<rho> (Parameter omega_arg) / 2) *\<^sub>R \<iota> (X i)
                             - eval \<rho> (Parameter delta_arg) *\<^sub>R \<iota> (N i))
                    + denote \<rho> \<iota> (rydberg_interaction_hamiltonian env register)
                    + (case rydberg_pattern_hamiltonian env register of
                         None \<Rightarrow> 0
                       | Some p \<Rightarrow> if add_pattern op = Some True then denote \<rho> \<iota> p else 0))"
    if built: "AnalogDrive env register duration_arg omega_arg delta_arg None
                   qubit_support_arg add_pattern_arg = Inr op" for op
  proof -
    from built have ok: "\<not> (eq_zero omega_arg \<and> eq_zero delta_arg)"
      by (auto simp add: AnalogDrive_def AnalogDrive_init_unfold)
    from built ok show ?thesis
      unfolding AnalogDrive_def AnalogDrive_init_unfold support
      by (auto simp add: denote_drive_generator split: option.splits)
  qed
  have no_flag: "add_pattern op = Some True
            \<and> (\<exists>g \<phi>. generator op = Some g \<and> parameters op ''phase'' = Some \<phi> \<and>
                  denote \<rho> \<iota> g =
                    (\<Sum>i\<leftarrow>qs. (eval \<rho> (Parameter omega_arg) / 2 * cos (eval \<rho> \<phi>)) *\<^sub>R \<iota> (X i)
                             - (eval \<rho> (Parameter omega_arg) / 2 * sin (eval \<rho> \<phi>)) *\<^sub>R \<iota> (Y i)
                             - eval \<rho> (Parameter delta_arg) *\<^sub>R \<iota> (N i))
                    + denote \<rho> \<iota> (rydberg_interaction_hamiltonian env register)
                    + (case rydberg_pattern_hamiltonian env register of
                         None \<Rightarrow> 0 | Some p \<Rightarrow> denote \<rho> \<iota> p))"
    if built: "AnalogDrive env register duration_arg omega_arg delta_arg phase_arg
                   qubit_support_arg None = Inr op" for op
  proof -
    from built have ok: "\<not> (eq_zero omega_arg \<and> eq_zero delta_arg)"
      by (auto simp add: AnalogDrive_def AnalogDrive_init_unfold)
    from built ok show ?thesis
      unfolding AnalogDrive_def AnalogDrive_init_unfold support
      by (auto simp add: denote_drive_generator split: option.splits)
  qed
  from phase_default flag_default no_phase no_flag show ?thesis by blast
qed

text \<open>
  The statement at the two-qubit register with a pattern, \<open>omega = 2\<close>, \<open>delta = 3\<close>: the
  phase omitted with the flag false, and the flag omitted with the phase \<open>\<pi> / 2\<close>.
\<close>

theorem drive_defaults_witness:
  "(\<exists>op. AnalogDrive sample_env () (TNum 1000) (TNum 2) (TNum 3) None (Some [0, 1])
            (Some False) = Inr op
        \<and> parameters op ''phase'' = Some (Constant 0)
        \<and> add_pattern op = Some False
        \<and> (\<exists>g. generator op = Some g \<and> denote sample_rho sample_iota g = 402))
   \<and> (\<exists>op. AnalogDrive sample_env () (TNum 1000) (TNum 2) (TNum 3) (Some (TNum (pi / 2)))
            (Some [0, 1]) None = Inr op
        \<and> add_pattern op = Some True
        \<and> parameters op ''phase'' = Some (Constant (pi / 2))
        \<and> (\<exists>g. generator op = Some g \<and> denote sample_rho sample_iota g = 1381))"
proof -
  obtain op1 where built1: "AnalogDrive sample_env () (TNum 1000) (TNum 2) (TNum 3) None
      (Some [0, 1]) (Some False) = Inr op1"
    by (simp add: AnalogDrive_def AnalogDrive_init_unfold)
  obtain op2 where built2: "AnalogDrive sample_env () (TNum 1000) (TNum 2) (TNum 3)
      (Some (TNum (pi / 2))) (Some [0, 1]) None = Inr op2"
    by (simp add: AnalogDrive_def AnalogDrive_init_unfold)
  have flag1: "add_pattern op1 = Some False"
    using built1 by (auto simp add: AnalogDrive_def AnalogDrive_init_unfold)
  have phase2: "parameters op2 ''phase'' = Some (Constant (pi / 2))"
    using built2 by (auto simp add: AnalogDrive_def AnalogDrive_init_unfold)
  have sup: "[0, 1] = (case Some [0, 1] of None \<Rightarrow> nodes sample_env () | Some s \<Rightarrow> s)"
    by simp
  note fact = drive_defaults [OF sup, where duration_arg = "TNum 1000"
      and omega_arg = "TNum 2" and delta_arg = "TNum 3" and add_pattern_arg = "Some False"
      and phase_arg = "Some (TNum (pi / 2))" and \<rho> = sample_rho and \<iota> = sample_iota]
  note without_phase = fact [THEN conjunct2, THEN conjunct1, rule_format, OF built1]
  note without_flag = fact [THEN conjunct2, THEN conjunct2, THEN conjunct2, rule_format, OF built2]
  have one: "parameters op1 ''phase'' = Some (Constant 0)
        \<and> (\<exists>g. generator op1 = Some g \<and> denote sample_rho sample_iota g = 402)"
    using without_phase flag1 by (simp add: sample_env_def)
  have two: "add_pattern op2 = Some True
        \<and> (\<exists>g. generator op2 = Some g \<and> denote sample_rho sample_iota g = 1381)"
    using without_flag phase2 by (auto simp add: sample_env_def)
  from built1 built2 flag1 phase2 one two show ?thesis by blast
qed

end
